theory Spec2Isabelle
  imports Main
begin

section \<open>JavaScript values and string helpers\<close>

text \<open>
  A field of a parsed JSON request body. \<open>JUndefined\<close> is a field the request omits.
  A number is an integer that JavaScript prints in plain decimal (below \<open>10^21\<close> in
  magnitude). Arrays and objects are not modelled: none of the controllers below
  expects one.
\<close>

datatype jsval = JUndefined | JNull | JBool bool | JNum int | JStr string

text \<open>
  A schema path of a stored document that may be missing (\<open>undefined\<close> when the
  document is loaded), explicitly \<open>null\<close>, or hold a value.
\<close>

datatype 'a field = Absent | Null | Val 'a

text \<open>JavaScript truthiness: \<open>!v\<close> is \<open>falsy v\<close>.\<close>

fun falsy :: "jsval \<Rightarrow> bool" where
  "falsy JUndefined = True"
| "falsy JNull = True"
| "falsy (JBool b) = (\<not> b)"
| "falsy (JNum n) = (n = 0)"
| "falsy (JStr s) = (s = [])"

text \<open>The white space of \<open>String.prototype.trim\<close> and of the regex class \<open>\s\<close>, within ASCII.\<close>

definition isSpace :: "char \<Rightarrow> bool" where
  "isSpace c = (c = CHR '' '' \<or> c = CHR 0x09 \<or> c = CHR 0x0A \<or> c = CHR 0x0B
                \<or> c = CHR 0x0C \<or> c = CHR 0x0D)"

definition trim :: "string \<Rightarrow> string" where
  "trim s = rev (dropWhile isSpace (rev (dropWhile isSpace s)))"

definition charCode :: "char \<Rightarrow> nat" where
  "charCode c = of_char c"

definition lowerChar :: "char \<Rightarrow> char" where
  "lowerChar c =
     (case map_of (zip ''ABCDEFGHIJKLMNOPQRSTUVWXYZ'' ''abcdefghijklmnopqrstuvwxyz'') c of
        Some d \<Rightarrow> d
      | None \<Rightarrow> c)"

definition toLowerCase :: "string \<Rightarrow> string" where
  "toLowerCase s = map lowerChar s"

text \<open>\<open>String(v)\<close> for the values of \<open>jsval\<close>.\<close>

definition digitChar :: "nat \<Rightarrow> char" where
  "digitChar d = ''0123456789'' ! d"

fun showNat :: "nat \<Rightarrow> string" where
  "showNat n = (if n < 10 then [digitChar n] else showNat (n div 10) @ [digitChar (n mod 10)])"

definition jsString :: "jsval \<Rightarrow> string" where
  "jsString v =
     (case v of
        JUndefined \<Rightarrow> ''undefined''
      | JNull \<Rightarrow> ''null''
      | JBool b \<Rightarrow> (if b then ''true'' else ''false'')
      | JNum n \<Rightarrow> (if n < 0 then CHR ''-'' # showNat (nat (- n)) else showNat (nat n))
      | JStr s \<Rightarrow> s)"

text \<open>
  \<open>/^[^\s@]+@[^\s@]+\.[^\s@]+$/.test(s)\<close>: no white space, exactly one \<open>@\<close>, a
  non-empty part before it, and after it a dot that is neither the first nor the last
  character.
\<close>

definition emailPattern_test :: "string \<Rightarrow> bool" where
  "emailPattern_test s =
     (let local = takeWhile (\<lambda>c. c \<noteq> CHR ''@'') s;
          rest = dropWhile (\<lambda>c. c \<noteq> CHR ''@'') s
      in (\<forall>c \<in> set s. \<not> isSpace c) \<and> local \<noteq> [] \<and> rest \<noteq> []
         \<and> CHR ''@'' \<notin> set (tl rest)
         \<and> CHR ''.'' \<in> set (butlast (tl (tl rest))))"

text \<open>\<open>/^[a-zA-Z0-9-_]+$/.test(s)\<close>.\<close>

definition usernameChar :: "char \<Rightarrow> bool" where
  "usernameChar c =
     ((97 \<le> charCode c \<and> charCode c \<le> 122) \<or> (65 \<le> charCode c \<and> charCode c \<le> 90)
      \<or> (48 \<le> charCode c \<and> charCode c \<le> 57) \<or> c = CHR ''-'' \<or> c = CHR ''_'')"

definition usernamePattern_test :: "string \<Rightarrow> bool" where
  "usernamePattern_test s = (s \<noteq> [] \<and> (\<forall>c \<in> set s. usernameChar c))"

section \<open>Errors\<close>

text \<open>
  A thrown \<open>ApiError(statusCode, message)\<close>, or any other exception (a \<open>TypeError\<close>, a
  driver or library error) by its message. The error middleware of \<open>app.js\<close> answers
  with \<open>err.statusCode || 500\<close>.
\<close>

datatype error = ApiError nat string | Thrown string

definition statusCode :: "error \<Rightarrow> nat" where
  "statusCode e = (case e of ApiError c m \<Rightarrow> c | Thrown m \<Rightarrow> 500)"

definition errorMessage :: "error \<Rightarrow> string" where
  "errorMessage e = (case e of ApiError c m \<Rightarrow> m | Thrown m \<Rightarrow> m)"

section \<open>Signed tokens\<close>

text \<open>
  A JSON web token is represented by what \<open>jwt.sign\<close> puts in it: the claims, the key
  that signed it, and the instant it expires (\<open>iat + expiresIn\<close>, here in the
  milliseconds of \<open>Date.now()\<close>). Two tokens are the same string exactly when the
  three agree.
\<close>

datatype claims =
    AccessClaims nat string string string
  | RefreshClaims nat
  | DataClaims string

datatype token = Token claims string int

definition jwt_sign :: "claims \<Rightarrow> string \<Rightarrow> int \<Rightarrow> int \<Rightarrow> token" where
  "jwt_sign c secret expiresIn t = Token c secret (t + expiresIn)"

text \<open>\<open>jwt.verify\<close> throws on a wrong signature first, then on a passed expiry.\<close>

definition jwt_verify :: "token \<Rightarrow> string \<Rightarrow> int \<Rightarrow> string + claims" where
  "jwt_verify tok secret t =
     (case tok of Token c k e \<Rightarrow>
        if k \<noteq> secret then Inl ''invalid signature''
        else if e \<le> t then Inl ''jwt expired''
        else Inr c)"

text \<open>The \<open>_id\<close> of a decoded payload, \<open>undefined\<close> when the payload has none.\<close>

fun claims_id :: "claims \<Rightarrow> nat option" where
  "claims_id (AccessClaims i e u f) = Some i"
| "claims_id (RefreshClaims i) = Some i"
| "claims_id (DataClaims d) = None"

section \<open>The credential store\<close>

text \<open>
  The paths of the User schema that the identity workflows read or write. The profile
  paths no operation below touches (bio, avatar, coverImage, watchHistory, timestamps)
  are left out.
\<close>

record user =
  uid :: nat
  username :: string
  email :: string
  fullName :: string
  password :: string
  refreshToken :: "token field"
  forgotPasswordOTP :: "int field"
  forgotPasswordOtpExpiry :: "int field"
  updateEmailOTP :: "int field"
  updateEmailOTPExpiry :: "int field"

text \<open>
  Modelled from the spec: the Registration schema (\<open>models/registration.model.js\<close>) is
  not among the sources. A PendingRegistration is a transient record keyed by email,
  holding a registration OTP.
\<close>

record registration =
  regEmail :: string
  verificationOTP :: "int field"

record store =
  users :: "user list"
  registrations :: "registration list"

definition findById :: "nat \<Rightarrow> user list \<Rightarrow> user option" where
  "findById i us = find (\<lambda>u. uid u = i) us"

text \<open>
  \<open>User.findOne({ email })\<close>. The filter is cast through the schema: the setters of the
  path (\<open>lowercase: true, trim: true\<close>) run on the value asked for, so the stored
  emails are compared with its trimmed lower-case form.
\<close>

definition findByEmail :: "string \<Rightarrow> user list \<Rightarrow> user option" where
  "findByEmail e us = find (\<lambda>u. email u = trim (toLowerCase e)) us"

text \<open>
  \<open>User.findOne({ $or: [{ email: x }, { username: x }] })\<close>. Both paths have the
  setters \<open>lowercase: true, trim: true\<close>, which run on \<open>x\<close> in either branch.
\<close>

definition findByEmailOrUsername :: "string \<Rightarrow> user list \<Rightarrow> user option" where
  "findByEmailOrUsername x us =
     find (\<lambda>u. email u = trim (toLowerCase x) \<or> username u = trim (toLowerCase x)) us"

text \<open>\<open>user.save()\<close> of a loaded document: the stored document of that \<open>_id\<close> is replaced.\<close>

definition saveUser :: "user \<Rightarrow> user list \<Rightarrow> user list" where
  "saveUser u us = map (\<lambda>v. if uid v = uid u then u else v) us"

text \<open>\<open>findOneAndDelete\<close>: the first matching document is removed, if there is one.\<close>

fun deleteFirst :: "('a \<Rightarrow> bool) \<Rightarrow> 'a list \<Rightarrow> 'a list" where
  "deleteFirst P [] = []"
| "deleteFirst P (x # xs) = (if P x then xs else x # deleteFirst P xs)"

text \<open>A new \<open>_id\<close>: one that no stored user has.\<close>

definition freshId :: "user list \<Rightarrow> nat" where
  "freshId us = Suc (foldr max (map uid us) 0)"

section \<open>Collaborators and requests\<close>

text \<open>
  What a request finds around it: the clock, the draw of
  \<open>Math.floor(Math.random() * 900000)\<close>, whether the mail sender throws (and with which
  message), the environment's session secrets and lifetimes, the bcrypt functions, and
  the parts of this repository that are not among the sources:
  \<^item> \<open>generateToken\<close> and \<open>verifyToken\<close> of \<open>utils/jwt.js\<close>. The controllers call
    \<open>generateToken(email)\<close> and read \<open>verifyToken(token).data\<close>; \<open>verifyToken\<close> here
    returns that \<open>data\<close> (\<open>None\<close> when the payload has none) or the error thrown. Both
    take the clock as their first argument.
  \<^item> how a query on the Registration schema matches a submitted \<open>verificationOTP\<close>
    against the stored one.
  One property of the document store's client is a parameter as well: whether the
  casting of an update drops a key of a \<open>$set\<close> whose value is \<open>undefined\<close>, as
  Mongoose does from release 6 on, or writes it as \<open>null\<close>, as Mongoose 5 did. The
  controller's named ESM imports of the package load on the releases that drop the key.
\<close>

record env =
  now :: int
  mathRandom :: int
  mailError :: "string option"
  generateToken :: "int \<Rightarrow> string \<Rightarrow> token"
  verifyToken :: "int \<Rightarrow> token \<Rightarrow> error + string option"
  otpQueryMatches :: "jsval \<Rightarrow> int field \<Rightarrow> bool"
  omitsUndefined :: bool
  bcryptHash :: "string \<Rightarrow> string"
  bcryptCompare :: "string \<Rightarrow> string \<Rightarrow> bool"
  ACCESS_TOKEN_SECRET :: string
  ACCESS_TOKEN_EXPIRY :: int
  REFRESH_TOKEN_SECRET :: string
  REFRESH_TOKEN_EXPIRY :: int

text \<open>
  A request: the JSON body, the cookies, \<open>req.headers.authorization?.split(' ')[1]\<close>,
  the header \<open>updateemailtoken\<close>, the body's \<open>refreshToken\<close> (a token string when
  present), and \<open>req.user._id\<close> as the \<open>verifyJWT\<close> middleware of the secured routes
  leaves it.
\<close>

record request =
  body :: "string \<rightharpoonup> jsval"
  bodyRefreshToken :: "token option"
  cookies :: "string \<rightharpoonup> token"
  bearer :: "token option"
  updateemailtoken :: "token option"
  authUser :: "nat option"

record response =
  status :: nat
  cookiesSet :: "(string \<times> token) list"
  cookiesCleared :: "string list"
  tokens :: "(string \<times> token) list"
  jsonUser :: "user option"
  message :: string

definition bodyField :: "request \<Rightarrow> string \<Rightarrow> jsval" where
  "bodyField rq k = (case body rq k of None \<Rightarrow> JUndefined | Some v \<Rightarrow> v)"

text \<open>\<open>a || b\<close> on two optional token strings.\<close>

definition orElse :: "'a option \<Rightarrow> 'a option \<Rightarrow> 'a option" where
  "orElse a b = (case a of Some x \<Rightarrow> Some x | None \<Rightarrow> b)"

text \<open>\<open>.select("-password -refreshToken")\<close>.\<close>

definition redact :: "user \<Rightarrow> user" where
  "redact u = u\<lparr>password := [], refreshToken := Absent\<rparr>"

text \<open>\<open>stored !== submitted\<close> is \<open>\<not> strictEq stored submitted\<close>.\<close>

fun strictEq :: "int field \<Rightarrow> jsval \<Rightarrow> bool" where
  "strictEq Absent JUndefined = True"
| "strictEq Null JNull = True"
| "strictEq (Val n) (JNum m) = (n = m)"
| "strictEq _ _ = False"

text \<open>
  \<open>expiry < Date.now()\<close> on a stored Date: \<open>null\<close> converts to 0, \<open>undefined\<close> to NaN,
  which is below nothing.
\<close>

fun dateBefore :: "int field \<Rightarrow> int \<Rightarrow> bool" where
  "dateBefore (Val d) t = (d < t)"
| "dateBefore Null t = (0 < t)"
| "dateBefore Absent t = False"

section \<open>Session issuer\<close>

definition generateAccessToken :: "env \<Rightarrow> user \<Rightarrow> token" where
  "generateAccessToken en u =
     jwt_sign (AccessClaims (uid u) (email u) (username u) (fullName u))
       (ACCESS_TOKEN_SECRET en) (ACCESS_TOKEN_EXPIRY en) (now en)"

definition generateRefreshToken :: "env \<Rightarrow> user \<Rightarrow> token" where
  "generateRefreshToken en u =
     jwt_sign (RefreshClaims (uid u)) (REFRESH_TOKEN_SECRET en) (REFRESH_TOKEN_EXPIRY en) (now en)"

text \<open>The \<open>catch\<close> turns every error of the body, the 404 included, into the 500.\<close>

definition generateAccessAndRefreshTokens ::
  "env \<Rightarrow> store \<Rightarrow> nat \<Rightarrow> store \<times> (error + token \<times> token)" where
  "generateAccessAndRefreshTokens en s userId =
     (case findById userId (users s) of
        None \<Rightarrow>
          (s, Inl (ApiError 500 ''Something went wrong while generating access and refresh tokens''))
      | Some u \<Rightarrow>
          (let accessToken = generateAccessToken en u;
               rt = generateRefreshToken en u
           in (s\<lparr>users := saveUser (u\<lparr>refreshToken := Val rt\<rparr>) (users s)\<rparr>,
               Inr (accessToken, rt))))"

text \<open>
  \<open>user.isPasswordCorrect(password)\<close>: \<open>bcrypt.compare\<close> throws when the candidate is
  not a string.
\<close>

definition isPasswordCorrect :: "env \<Rightarrow> user \<Rightarrow> jsval \<Rightarrow> error + bool" where
  "isPasswordCorrect en u pw =
     (case pw of
        JStr p \<Rightarrow> Inr (bcryptCompare en p (password u))
      | _ \<Rightarrow> Inl (Thrown ''data and hash arguments required''))"


text \<open>
  \<open>findByIdAndUpdate(req.user._id, { $set: { refreshToken: undefined } })\<close>: the client
  drops the \<open>undefined\<close> key, which leaves an empty update and the document as it
  was; a client that wrote the key would store \<open>null\<close>.
\<close>

definition logoutUser :: "env \<Rightarrow> store \<Rightarrow> request \<Rightarrow> store \<times> (error + response)" where
  "logoutUser en s rq =
     (case authUser rq of
        None \<Rightarrow> (s, Inl (Thrown ''Cannot read properties of undefined (reading _id)''))
      | Some i \<Rightarrow>
          ((if omitsUndefined en then s
            else s\<lparr>users := map (\<lambda>v. if uid v = i then v\<lparr>refreshToken := Null\<rparr> else v)
                                (users s)\<rparr>),
           Inr \<lparr>status = 200, cookiesSet = [],
                cookiesCleared = [''accessToken'', ''refreshToken''],
                tokens = [], jsonUser = None,
                message = ''User logged out successfully!''\<rparr>))"

text \<open>The outer \<open>catch\<close> rethrows every error of the body as a 401 with its message.\<close>

definition refreshAccessToken :: "env \<Rightarrow> store \<Rightarrow> request \<Rightarrow> store \<times> (error + response)" where
  "refreshAccessToken en s rq =
     (case orElse (bodyRefreshToken rq) (cookies rq ''refreshToken'') of
        None \<Rightarrow> (s, Inl (ApiError 401 ''Unauthorized request!''))
      | Some incomingRefreshToken \<Rightarrow>
          (case jwt_verify incomingRefreshToken (REFRESH_TOKEN_SECRET en) (now en) of
             Inl m \<Rightarrow> (s, Inl (ApiError 401 m))
           | Inr decodedToken \<Rightarrow>
               (case (case claims_id decodedToken of None \<Rightarrow> None
                                                   | Some i \<Rightarrow> findById i (users s)) of
                  None \<Rightarrow> (s, Inl (ApiError 401 ''Invalid Refresh Token!''))
                | Some u \<Rightarrow>
                    if Val incomingRefreshToken \<noteq> refreshToken u
                    then (s, Inl (ApiError 401 ''Refresh Token is expired or used.''))
                    else (case generateAccessAndRefreshTokens en s (uid u) of
                       (s', Inl e) \<Rightarrow> (s', Inl (ApiError 401 (errorMessage e)))
                     | (s', Inr (accessToken, rt)) \<Rightarrow>
                         (s', Inr \<lparr>status = 200,
                                   cookiesSet = [(''accessToken'', accessToken), (''refreshToken'', rt)],
                                   cookiesCleared = [],
                                   tokens = [(''accessToken'', accessToken), (''refreshToken'', rt)],
                                   jsonUser = None,
                                   message = ''Access token refreshed successfully''\<rparr>)))))"

section \<open>Verification workflows\<close>

text \<open>
  The lines every confirm step opens with: the incoming token must be there,
  \<open>verifyToken\<close> must accept it, and its \<open>data\<close> must be truthy.
\<close>

definition decodeEmail :: "env \<Rightarrow> token option \<Rightarrow> error + string" where
  "decodeEmail en incomingToken =
     (case incomingToken of
        None \<Rightarrow> Inl (ApiError 400 ''Token is required'')
      | Some t \<Rightarrow>
          (case verifyToken en (now en) t of
             Inl e \<Rightarrow> Inl e
           | Inr d \<Rightarrow>
               (case d of
                  None \<Rightarrow> Inl (ApiError 400 ''Something went wrong while decoding the email.'')
                | Some e \<Rightarrow>
                    if e = [] then Inl (ApiError 400 ''Something went wrong while decoding the email.'')
                    else Inr e)))"

subsection \<open>Registration\<close>

text \<open>
  \<open>Registration.create({ email })\<close> followed by the save of the OTP is one write here:
  nothing reads the store between the two.
\<close>

definition emailRegistration :: "env \<Rightarrow> store \<Rightarrow> request \<Rightarrow> store \<times> (error + response)" where
  "emailRegistration en s rq =
     (let emailV = bodyField rq ''email''
      in if falsy emailV then (s, Inl (ApiError 400 ''Email is required.''))
         else (case emailV of
            JStr e \<Rightarrow>
              if trim e = [] then (s, Inl (ApiError 400 ''Email is required.''))
              else if \<not> emailPattern_test e
              then (s, Inl (ApiError 400 ''Invalid email address format.''))
              else if findByEmail e (users s) \<noteq> None
              then (s, Inl (ApiError 409 ''This email is already linked to an user.''))
              else
                (let otp = mathRandom en + 100000;
                     s1 = s\<lparr>registrations :=
                              deleteFirst (\<lambda>r. regEmail r = e) (registrations s)\<rparr>;
                     s2 = s1\<lparr>registrations :=
                               registrations s1 @ [\<lparr>regEmail = e, verificationOTP = Val otp\<rparr>]\<rparr>
                 in (case mailError en of
                       Some m \<Rightarrow>
                         (s2, Inl (ApiError 500 (''Error while sending verification email: '' @ m)))
                     | None \<Rightarrow>
                         (let token = generateToken en (now en) e
                          in (s2, Inr \<lparr>status = 200, cookiesSet = [(''emailToken'', token)],
                                       cookiesCleared = [], tokens = [(''token'', token)],
                                       jsonUser = None,
                                       message = ''OTP sent successfuly. Please verify your email.''\<rparr>))))
          | _ \<Rightarrow> (s, Inl (Thrown ''email.trim is not a function''))))"

definition verifyEmail :: "env \<Rightarrow> store \<Rightarrow> request \<Rightarrow> store \<times> (error + response)" where
  "verifyEmail en s rq =
     (let otp = bodyField rq ''verificationOTP''
      in case decodeEmail en (orElse (cookies rq ''emailToken'') (bearer rq)) of
           Inl err \<Rightarrow> (s, Inl err)
         | Inr e \<Rightarrow>
             (case find (\<lambda>r. regEmail r = e \<and> otpQueryMatches en otp (verificationOTP r))
                        (registrations s) of
                None \<Rightarrow> (s, Inl (ApiError 400 ''Invalid or expired OTP.''))
              | Some r \<Rightarrow>
                  (let s1 = s\<lparr>registrations :=
                                deleteFirst (\<lambda>r. regEmail r = e) (registrations s)\<rparr>;
                       token = generateToken en (now en) e
                   in (s1, Inr \<lparr>status = 200, cookiesSet = [(''verifiedEmailToken'', token)],
                                cookiesCleared = [''emailToken''], tokens = [(''token'', token)],
                                jsonUser = None,
                                message = ''Email verification successful.''\<rparr>))))"

text \<open>
  \<open>[fullName, username, password].some((field) => field?.trim() === "")\<close>: the fields are
  visited in order; \<open>undefined\<close> and \<open>null\<close> give \<open>undefined === ""\<close>, a string is
  trimmed, and any other value has no \<open>trim\<close> to call.
\<close>

fun someBlank :: "jsval list \<Rightarrow> error + bool" where
  "someBlank [] = Inr False"
| "someBlank (JUndefined # fs) = someBlank fs"
| "someBlank (JNull # fs) = someBlank fs"
| "someBlank (JStr x # fs) = (if trim x = [] then Inr True else someBlank fs)"
| "someBlank (v # fs) = Inl (Thrown ''field?.trim is not a function'')"

text \<open>
  \<open>User.create\<close>: the schema's setters (trim and lowercase on username and email, trim on
  fullName), its \<open>required\<close> validators, the pre-save hook that hashes the password, and
  the unique indexes on username and email. The new document goes last.
\<close>

definition createUser ::
  "env \<Rightarrow> jsval \<Rightarrow> string \<Rightarrow> jsval \<Rightarrow> string \<Rightarrow> user list \<Rightarrow> error + user \<times> user list" where
  "createUser en fullNameV emailS passwordV usernameS us =
     (case (fullNameV, passwordV) of
        (JStr f, JStr p) \<Rightarrow>
          (let un = trim (toLowerCase usernameS);
               em = trim (toLowerCase emailS)
           in if trim f = [] \<or> p = [] \<or> un = [] \<or> em = []
              then Inl (Thrown ''User validation failed'')
              else if \<exists>v \<in> set us. username v = un \<or> email v = em
              then Inl (Thrown ''E11000 duplicate key error'')
              else
                (let u = \<lparr>uid = freshId us, username = un, email = em, fullName = trim f,
                          password = bcryptHash en p, refreshToken = Absent,
                          forgotPasswordOTP = Absent, forgotPasswordOtpExpiry = Absent,
                          updateEmailOTP = Absent, updateEmailOTPExpiry = Absent\<rparr>
                 in Inr (u, us @ [u])))
      | _ \<Rightarrow> Inl (Thrown ''User validation failed''))"

text \<open>
  Both existence checks query by \<open>{ email }\<close>, as the controller does; the second can
  never find what the first did not.
\<close>

definition registerUser :: "env \<Rightarrow> store \<Rightarrow> request \<Rightarrow> store \<times> (error + response)" where
  "registerUser en s rq =
     (case decodeEmail en (orElse (cookies rq ''verifiedEmailToken'') (bearer rq)) of
        Inl err \<Rightarrow> (s, Inl err)
      | Inr e \<Rightarrow>
          (let fullNameV = bodyField rq ''fullName'';
               usernameV = bodyField rq ''username'';
               passwordV = bodyField rq ''password''
           in case someBlank [fullNameV, usernameV, passwordV] of
                Inl err \<Rightarrow> (s, Inl err)
              | Inr blank \<Rightarrow>
                  if blank then (s, Inl (ApiError 400 ''All fields are required!''))
                  else if \<not> usernamePattern_test (jsString usernameV)
                  then (s, Inl (ApiError 400
                    ''Invalid username: only letters, numbers, hyphens, and underscores are allowed.''))
                  else if findByEmail e (users s) \<noteq> None
                  then (s, Inl (ApiError 409 ''User with email already exists''))
                  else if findByEmail e (users s) \<noteq> None
                  then (s, Inl (ApiError 409 ''User with username already exists''))
                  else (case usernameV of
                     JStr un \<Rightarrow>
                       (case createUser en fullNameV e passwordV (toLowerCase un) (users s) of
                          Inl err \<Rightarrow> (s, Inl err)
                        | Inr (u, us') \<Rightarrow>
                            (case findById (uid u) us' of
                               None \<Rightarrow>
                                 (s\<lparr>users := us'\<rparr>,
                                  Inl (ApiError 500 ''Something went wrong while registering the user!''))
                             | Some createdUser \<Rightarrow>
                                 (s\<lparr>users := us'\<rparr>,
                                  Inr \<lparr>status = 201, cookiesSet = [],
                                       cookiesCleared = [''verifiedEmailToken''], tokens = [],
                                       jsonUser = Some (redact createdUser),
                                       message = ''User registered successfully!''\<rparr>)))
                   | _ \<Rightarrow>
                       (s, Inl (Thrown ''Cannot read properties of undefined (reading toLowerCase)'')))))"

subsection \<open>Email change\<close>


text \<open>
  The save that writes the new email runs into the unique index when another user holds
  that email. The \<open>catch\<close> then clears the OTP paths of the same document, whose email
  is still the new one, and saves again: that save throws as the first did, and its
  error leaves the controller in place of the 500. The save that follows the
  \<open>try\<close> block writes an unmodified document. The response carries the saved document
  as it is.
\<close>

definition verifyUpdateEmailOTP :: "env \<Rightarrow> store \<Rightarrow> request \<Rightarrow> store \<times> (error + response)" where
  "verifyUpdateEmailOTP en s rq =
     (let otp = bodyField rq ''updateEmailOTP''
      in case decodeEmail en (orElse (cookies rq ''updateEmailToken'') (updateemailtoken rq)) of
           Inl err \<Rightarrow> (s, Inl err)
         | Inr newEmail \<Rightarrow>
             (case (case authUser rq of None \<Rightarrow> None | Some i \<Rightarrow> findById i (users s)) of
                None \<Rightarrow> (s, Inl (ApiError 400 ''Unauthorized request.''))
              | Some u \<Rightarrow>
                  if \<not> strictEq (updateEmailOTP u) otp
                  then (s, Inl (ApiError 400 ''Invalid OTP.''))
                  else if dateBefore (updateEmailOTPExpiry u) (now en)
                  then (s, Inl (ApiError 400 ''OTP has expired.''))
                  else
                    (let u1 = u\<lparr>email := trim (toLowerCase newEmail),
                                 updateEmailOTP := Null, updateEmailOTPExpiry := Null\<rparr>
                     in if \<exists>v \<in> set (users s). uid v \<noteq> uid u \<and> email v = email u1
                        then (s, Inl (Thrown ''E11000 duplicate key error''))
                        else
                          (s\<lparr>users := saveUser u1 (users s)\<rparr>,
                           Inr \<lparr>status = 200, cookiesSet = [],
                                cookiesCleared = [''updateEmailToken''], tokens = [],
                                jsonUser = Some u1,
                                message = ''Email updated successfully.''\<rparr>))))"

subsection \<open>Password reset\<close>

definition sendForgotPasswordOTP :: "env \<Rightarrow> store \<Rightarrow> request \<Rightarrow> store \<times> (error + response)" where
  "sendForgotPasswordOTP en s rq =
     (let usernameOrEmail = bodyField rq ''usernameOrEmail''
      in if falsy usernameOrEmail then (s, Inl (ApiError 400 ''Email or username is required.''))
         else (case usernameOrEmail of
            JStr x \<Rightarrow>
              if trim x = [] then (s, Inl (ApiError 400 ''Email or username is required.''))
              else (case findByEmailOrUsername x (users s) of
                 None \<Rightarrow> (s, Inl (ApiError 404 ''User not found.''))
               | Some u \<Rightarrow>
                   (let otp = mathRandom en + 100000;
                        otpExpiry = now en + 15 * 60 * 1000;
                        s1 = s\<lparr>users := saveUser
                               (u\<lparr>forgotPasswordOTP := Val otp,
                                  forgotPasswordOtpExpiry := Val otpExpiry\<rparr>) (users s)\<rparr>
                    in (case mailError en of
                          Some m \<Rightarrow>
                            (s1, Inl (ApiError 500
                               (''Error while sending forgot password email: '' @ m)))
                        | None \<Rightarrow>
                            (let token = generateToken en (now en) (email u)
                             in (s1, Inr \<lparr>status = 200,
                                          cookiesSet = [(''forgotPassToken'', token)],
                                          cookiesCleared = [], tokens = [(''token'', token)],
                                          jsonUser = None,
                                          message = ''Forgot password OTP sent successfully.''\<rparr>)))))
          | _ \<Rightarrow> (s, Inl (Thrown ''usernameOrEmail.trim is not a function''))))"

definition verifyForgotPasswordOTP ::
  "env \<Rightarrow> store \<Rightarrow> request \<Rightarrow> store \<times> (error + response)" where
  "verifyForgotPasswordOTP en s rq =
     (let otp = bodyField rq ''forgotPasswordOTP''
      in case decodeEmail en (orElse (cookies rq ''forgotPassToken'') (bearer rq)) of
           Inl err \<Rightarrow> (s, Inl err)
         | Inr e \<Rightarrow>
             (case findByEmail e (users s) of
                None \<Rightarrow> (s, Inl (ApiError 400 ''Session expired.''))
              | Some u \<Rightarrow>
                  if \<not> strictEq (forgotPasswordOTP u) otp
                  then (s, Inl (ApiError 400 ''Invalid OTP.''))
                  else if dateBefore (forgotPasswordOtpExpiry u) (now en)
                  then (s, Inl (ApiError 400 ''OTP has expired.''))
                  else
                    (let u1 = u\<lparr>forgotPasswordOTP := Null, forgotPasswordOtpExpiry := Null\<rparr>;
                         token = generateToken en (now en) (email u1)
                     in (s\<lparr>users := saveUser u1 (users s)\<rparr>,
                         Inr \<lparr>status = 200, cookiesSet = [(''verifiedToken'', token)],
                              cookiesCleared = [''forgotPassToken''], tokens = [(''token'', token)],
                              jsonUser = None,
                              message = ''Forgot password OTP verified successfully.''\<rparr>))))"

text \<open>The pre-save hook hashes the password only when the assignment changed it.\<close>

definition forgotPassword :: "env \<Rightarrow> store \<Rightarrow> request \<Rightarrow> store \<times> (error + response)" where
  "forgotPassword en s rq =
     (let newPassword = bodyField rq ''newPassword''
      in case decodeEmail en (orElse (cookies rq ''verifiedToken'') (bearer rq)) of
           Inl err \<Rightarrow> (s, Inl err)
         | Inr e \<Rightarrow>
             if falsy newPassword then (s, Inl (ApiError 400 ''Password is required.''))
             else (case newPassword of
                JStr p \<Rightarrow>
                  if trim p = [] then (s, Inl (ApiError 400 ''Password is required.''))
                  else (case findByEmail e (users s) of
                     None \<Rightarrow>
                       (s, Inl (ApiError 400 ''Forgot password token is invalid or expired.''))
                   | Some u \<Rightarrow>
                       (let u1 = u\<lparr>password :=
                                     (if p = password u then password u else bcryptHash en p)\<rparr>
                        in (s\<lparr>users := saveUser u1 (users s)\<rparr>,
                            Inr \<lparr>status = 200, cookiesSet = [],
                                 cookiesCleared = [''verifiedToken''], tokens = [],
                                 jsonUser = None,
                                 message = ''Password updated successfully.''\<rparr>)))
              | _ \<Rightarrow> (s, Inl (Thrown ''newPassword.trim is not a function''))))"

section \<open>Outcomes and store invariants\<close>

text \<open>The HTTP status a controller's outcome is answered with.\<close>

definition outcomeStatus :: "error + response \<Rightarrow> nat" where
  "outcomeStatus r = (case r of Inl e \<Rightarrow> statusCode e | Inr resp \<Rightarrow> status resp)"

definition tokenClaims :: "token \<Rightarrow> claims" where
  "tokenClaims tok = (case tok of Token c k e \<Rightarrow> c)"

text \<open>
  The data model's invariant on a pair of OTP paths: the code and its expiry are set
  together and cleared together.
\<close>

definition otpPaired :: "int field \<Rightarrow> int field \<Rightarrow> bool" where
  "otpPaired c e = ((c = Absent \<longleftrightarrow> e = Absent) \<and> (c = Null \<longleftrightarrow> e = Null))"

definition pairedOtps :: "store \<Rightarrow> bool" where
  "pairedOtps s =
     (\<forall>u \<in> set (users s).
        otpPaired (forgotPasswordOTP u) (forgotPasswordOtpExpiry u)
        \<and> otpPaired (updateEmailOTP u) (updateEmailOTPExpiry u))"

text \<open>The data model's invariant on pending registrations: at most one per email.\<close>

definition oneRegistrationPerEmail :: "store \<Rightarrow> bool" where
  "oneRegistrationPerEmail s = distinct (map regEmail (registrations s))"

section \<open>A concrete token codec, and example data\<close>

text \<open>
  Modelled from the spec: \<open>utils/jwt.js\<close> is not among the sources. The Token Codec
  signs a payload with a secret and a lifetime, and verification fails when the
  signature is wrong or the lifetime has passed. The controllers hand \<open>generateToken\<close>
  nothing but the email and \<open>verifyToken\<close> nothing but the token, so the module has
  one secret and one lifetime of its own.
\<close>

definition specGenerateToken :: "string \<Rightarrow> int \<Rightarrow> int \<Rightarrow> string \<Rightarrow> token" where
  "specGenerateToken secret ttl t e = jwt_sign (DataClaims e) secret ttl t"

definition specVerifyToken :: "string \<Rightarrow> int \<Rightarrow> token \<Rightarrow> error + string option" where
  "specVerifyToken secret t tok =
     (case jwt_verify tok secret t of
        Inl m \<Rightarrow> Inl (ApiError 401 m)
      | Inr c \<Rightarrow> Inr (case c of DataClaims e \<Rightarrow> Some e | _ \<Rightarrow> None))"

definition exampleEnv :: env where
  "exampleEnv =
     \<lparr>now = 1000000, mathRandom = 23456, mailError = None,
      generateToken = specGenerateToken ''otp-secret'' (20 * 60 * 1000),
      verifyToken = specVerifyToken ''otp-secret'',
      otpQueryMatches = (\<lambda>v f. strictEq f v),
      omitsUndefined = True,
      bcryptHash = (\<lambda>p. ''$2b$10$'' @ p),
      bcryptCompare = (\<lambda>p h. h = ''$2b$10$'' @ p),
      ACCESS_TOKEN_SECRET = ''access-secret'', ACCESS_TOKEN_EXPIRY = 86400000,
      REFRESH_TOKEN_SECRET = ''refresh-secret'', REFRESH_TOKEN_EXPIRY = 864000000\<rparr>"

definition alice :: user where
  "alice =
     \<lparr>uid = 1, username = ''alice'', email = ''a@x.com'', fullName = ''Alice A'',
      password = ''$2b$10$secret1'', refreshToken = Absent,
      forgotPasswordOTP = Absent, forgotPasswordOtpExpiry = Absent,
      updateEmailOTP = Absent, updateEmailOTPExpiry = Absent\<rparr>"

definition emptyStore :: store where
  "emptyStore = \<lparr>users = [], registrations = []\<rparr>"

definition aliceStore :: store where
  "aliceStore = \<lparr>users = [alice], registrations = []\<rparr>"

definition emptyRequest :: request where
  "emptyRequest =
     \<lparr>body = Map.empty, bodyRefreshToken = None, cookies = Map.empty, bearer = None,
      updateemailtoken = None, authUser = None\<rparr>"

definition loginRequest :: "string \<Rightarrow> string \<Rightarrow> request" where
  "loginRequest ident pw =
     emptyRequest\<lparr>body := [''usernameOrEmail'' \<mapsto> JStr ident, ''password'' \<mapsto> JStr pw]\<rparr>"

text \<open>A refresh token issued to alice at an earlier login, and a later one.\<close>

definition oldRefresh :: token where
  "oldRefresh = Token (RefreshClaims 1) ''refresh-secret'' 864500000"

definition laterRefresh :: token where
  "laterRefresh = Token (RefreshClaims 1) ''refresh-secret'' 864900000"

definition loggedInStore :: "token \<Rightarrow> store" where
  "loggedInStore t = \<lparr>users = [alice\<lparr>refreshToken := Val t\<rparr>], registrations = []\<rparr>"

definition refreshRequest :: "token \<Rightarrow> request" where
  "refreshRequest t = emptyRequest\<lparr>cookies := [''refreshToken'' \<mapsto> t]\<rparr>"

definition logoutRequest :: "nat \<Rightarrow> request" where
  "logoutRequest i = emptyRequest\<lparr>authUser := Some i\<rparr>"

text \<open>The proof token the example codec issues for an email at the example clock.\<close>

definition proofToken :: "string \<Rightarrow> token" where
  "proofToken e = generateToken exampleEnv (now exampleEnv) e"

text \<open>Alice with a forgot-password OTP, or an email-change OTP, that expires at \<open>x\<close>.\<close>

definition resetPendingStore :: "int \<Rightarrow> store" where
  "resetPendingStore x =
     \<lparr>users = [alice\<lparr>forgotPasswordOTP := Val 123456, forgotPasswordOtpExpiry := Val x\<rparr>],
      registrations = []\<rparr>"

definition changePendingStore :: "int \<Rightarrow> store" where
  "changePendingStore x =
     \<lparr>users = [alice\<lparr>updateEmailOTP := Val 123456, updateEmailOTPExpiry := Val x\<rparr>],
      registrations = []\<rparr>"

definition resetConfirmRequest :: "token \<Rightarrow> jsval \<Rightarrow> request" where
  "resetConfirmRequest t otp =
     emptyRequest\<lparr>cookies := [''forgotPassToken'' \<mapsto> t], body := [''forgotPasswordOTP'' \<mapsto> otp]\<rparr>"

definition changeConfirmRequest :: "nat \<Rightarrow> token \<Rightarrow> jsval \<Rightarrow> request" where
  "changeConfirmRequest i t otp =
     emptyRequest\<lparr>cookies := [''updateEmailToken'' \<mapsto> t], body := [''updateEmailOTP'' \<mapsto> otp],
                  authUser := Some i\<rparr>"

definition newPasswordRequest :: "token \<Rightarrow> string \<Rightarrow> request" where
  "newPasswordRequest t p =
     emptyRequest\<lparr>cookies := [''verifiedToken'' \<mapsto> t], body := [''newPassword'' \<mapsto> JStr p]\<rparr>"

definition registerRequest :: "token \<Rightarrow> (string \<times> jsval) list \<Rightarrow> request" where
  "registerRequest t kvs =
     emptyRequest\<lparr>cookies := [''verifiedEmailToken'' \<mapsto> t], body := map_of kvs\<rparr>"

text \<open>The example collaborators with a mail sender that throws.\<close>

definition failingMailEnv :: env where
  "failingMailEnv = exampleEnv\<lparr>mailError := Some ''SMTP down''\<rparr>"

definition emailRequest :: "string \<Rightarrow> request" where
  "emailRequest e = emptyRequest\<lparr>body := [''email'' \<mapsto> JStr e]\<rparr>"

definition resetRequest :: "string \<Rightarrow> request" where
  "resetRequest x = emptyRequest\<lparr>body := [''usernameOrEmail'' \<mapsto> JStr x]\<rparr>"

definition emailConfirmRequest :: "token \<Rightarrow> jsval \<Rightarrow> request" where
  "emailConfirmRequest t otp =
     emptyRequest\<lparr>cookies := [''emailToken'' \<mapsto> t], body := [''verificationOTP'' \<mapsto> otp]\<rparr>"

text \<open>A pending registration for an email, with the OTP the example draw gives.\<close>

definition pendingStore :: "string \<Rightarrow> store" where
  "pendingStore e =
     \<lparr>users = [], registrations = [\<lparr>regEmail = e, verificationOTP = Val 123456\<rparr>]\<rparr>"

definition bobFields :: "(string \<times> jsval) list" where
  "bobFields =
     [(''fullName'', JStr ''Bob B''), (''username'', JStr ''bob''), (''password'', JStr ''secret2'')]"

text \<open>Alice after a confirmed change to the email \<open>e\<close>, and after a confirmed reset OTP.\<close>

definition aliceAt :: "string \<Rightarrow> store" where
  "aliceAt e =
     \<lparr>users = [alice\<lparr>email := e, updateEmailOTP := Null, updateEmailOTPExpiry := Null\<rparr>],
      registrations = []\<rparr>"

definition resetDoneStore :: store where
  "resetDoneStore =
     \<lparr>users = [alice\<lparr>forgotPasswordOTP := Null, forgotPasswordOtpExpiry := Null\<rparr>],
      registrations = []\<rparr>"

section \<open>Evaluation and lookup lemmas\<close>

lemmas example_defs =
  exampleEnv_def alice_def aliceStore_def emptyStore_def emptyRequest_def loginRequest_def
  oldRefresh_def laterRefresh_def loggedInStore_def refreshRequest_def
  logoutRequest_def
  proofToken_def resetPendingStore_def changePendingStore_def resetConfirmRequest_def
  changeConfirmRequest_def registerRequest_def specGenerateToken_def specVerifyToken_def
  newPasswordRequest_def
  failingMailEnv_def emailRequest_def resetRequest_def emailConfirmRequest_def pendingStore_def
  bobFields_def aliceAt_def resetDoneStore_def

lemmas run_defs =
  bodyField_def findByEmailOrUsername_def findById_def findByEmail_def isPasswordCorrect_def
  jsString_def saveUser_def orElse_def decodeEmail_def jwt_sign_def jwt_verify_def
  tokenClaims_def outcomeStatus_def statusCode_def errorMessage_def Let_def
  trim_def isSpace_def toLowerCase_def lowerChar_def

lemmas string_defs =
  trim_def isSpace_def toLowerCase_def lowerChar_def emailPattern_test_def
  usernamePattern_test_def usernameChar_def charCode_def

lemma findById_uid: "findById i us = Some u \<Longrightarrow> uid u = i \<and> u \<in> set us"
  by (induction us) (auto simp: findById_def split: if_splits)

lemma findByEmail_email:
  "findByEmail e us = Some u \<Longrightarrow> email u = trim (toLowerCase e) \<and> u \<in> set us"
  by (induction us) (auto simp: findByEmail_def split: if_splits)

lemma findById_saveUser:
  "findById i us = Some u \<Longrightarrow> uid u1 = i \<Longrightarrow> findById i (saveUser u1 us) = Some u1"
  by (induction us) (auto simp: findById_def saveUser_def split: if_splits)

lemma findByEmail_saveUser:
  "findByEmail e us = Some u \<Longrightarrow> uid u1 = uid u \<Longrightarrow> email u1 = email u \<Longrightarrow>
   findByEmail e (saveUser u1 us) = Some u1"
  by (induction us) (auto simp: findByEmail_def saveUser_def split: if_splits)

lemma findById_clear:
  "findById i (map (\<lambda>v. if uid v = i then v\<lparr>refreshToken := Null\<rparr> else v) us) =
     map_option (\<lambda>u. u\<lparr>refreshToken := Null\<rparr>) (findById i us)"
  by (induction us) (auto simp: findById_def)

lemma strictEq_JStr [simp]: "\<not> strictEq f (JStr d)"
  by (cases f) auto

lemma strictEq_Null: "strictEq Null v \<longleftrightarrow> v = JNull"
  by (cases v) auto

section \<open>Session issuer: login, refresh, logout\<close>

text \<open>
  Every refresh token the issuer stores names the user it is stored on: the hypothesis
  of the logout theorem below is what \<open>generateAccessAndRefreshTokens\<close> establishes.
\<close>

lemma issued_refresh_token_names_user:
  assumes "generateAccessAndRefreshTokens en s i = (s', Inr (a, r))"
  shows "claims_id (tokenClaims r) = Some i
         \<and> map_option refreshToken (findById i (users s')) = Some (Val r)"
proof -
  from assms obtain u where u: "findById i (users s) = Some u"
    by (auto simp: generateAccessAndRefreshTokens_def split: option.splits)
  then have ui: "uid u = i" by (simp add: findById_uid)
  from u ui have "findById i (saveUser (u\<lparr>refreshToken := Val r\<rparr>) (users s))
                    = Some (u\<lparr>refreshToken := Val r\<rparr>)"
    by (simp add: findById_saveUser)
  with assms u ui show ?thesis
    by (auto simp: generateAccessAndRefreshTokens_def Let_def generateRefreshToken_def
        jwt_sign_def tokenClaims_def)
qed




text \<open>
  C7. A refresh token that \<open>jwt.verify\<close> accepts (right signature, not expired) and that
  names a stored user, but is not the token stored on that user, is rejected with 401
  ``Refresh Token is expired or used.''; the store is unchanged, so nothing is rotated
  or persisted.
\<close>

theorem refresh_rejects_unstored_token:
  assumes "orElse (bodyRefreshToken rq) (cookies rq ''refreshToken'') = Some t"
    and "jwt_verify t (REFRESH_TOKEN_SECRET en) (now en) = Inr c"
    and "claims_id c = Some i" and "findById i (users s) = Some u"
    and "refreshToken u \<noteq> Val t"
  shows "refreshAccessToken en s rq = (s, Inl (ApiError 401 ''Refresh Token is expired or used.''))"
  using assms by (auto simp: refreshAccessToken_def)

theorem refresh_rejects_unstored_token_witness:
  "jwt_verify laterRefresh (REFRESH_TOKEN_SECRET exampleEnv) (now exampleEnv) = Inr (RefreshClaims 1)
   \<and> refreshAccessToken exampleEnv (loggedInStore oldRefresh) (refreshRequest laterRefresh) =
       (loggedInStore oldRefresh, Inl (ApiError 401 ''Refresh Token is expired or used.''))"
  using refresh_rejects_unstored_token
    [of "refreshRequest laterRefresh" laterRefresh exampleEnv "RefreshClaims 1" 1
        "loggedInStore oldRefresh" "alice\<lparr>refreshToken := Val oldRefresh\<rparr>"]
  by (simp add: example_defs run_defs)

text \<open>
  What logout would achieve if the \<open>undefined\<close> of its \<open>$set\<close> were written: the
  user's refresh token would be \<open>null\<close>, and a refresh presenting the old token would
  fail with 401 at any later clock.
\<close>

lemma logout_clears_where_undefined_is_written:
  assumes written: "\<not> omitsUndefined en"
    and auth: "authUser rq = Some i"
    and found: "findById i (users s) = Some u"
    and stored: "refreshToken u = Val r"
    and names: "claims_id (tokenClaims r) = Some i"
    and presented: "orElse (bodyRefreshToken rq2) (cookies rq2 ''refreshToken'') = Some r"
  shows "outcomeStatus (snd (logoutUser en s rq)) = 200
       \<and> map_option refreshToken (findById i (users (fst (logoutUser en s rq)))) = Some Null
       \<and> fst (refreshAccessToken en2 (fst (logoutUser en s rq)) rq2) = fst (logoutUser en s rq)
       \<and> outcomeStatus (snd (refreshAccessToken en2 (fst (logoutUser en s rq)) rq2)) = 401"
proof -
  define s' where
    "s' = s\<lparr>users := map (\<lambda>v. if uid v = i then v\<lparr>refreshToken := Null\<rparr> else v) (users s)\<rparr>"
  have out: "fst (logoutUser en s rq) = s'" "outcomeStatus (snd (logoutUser en s rq)) = 200"
    using auth written by (simp_all add: logoutUser_def s'_def outcomeStatus_def)
  have cleared: "findById i (users s') = Some (u\<lparr>refreshToken := Null\<rparr>)"
    using found by (simp add: s'_def findById_clear)
  have "\<exists>m. refreshAccessToken en2 s' rq2 = (s', Inl (ApiError 401 m))"
  proof (cases "jwt_verify r (REFRESH_TOKEN_SECRET en2) (now en2)")
    case (Inl m)
    then show ?thesis using presented by (simp add: refreshAccessToken_def)
  next
    case (Inr c)
    then have "c = tokenClaims r"
      by (auto simp: jwt_verify_def tokenClaims_def split: token.splits if_splits)
    then have "claims_id c = Some i" using names by simp
    then show ?thesis using presented Inr cleared by (simp add: refreshAccessToken_def)
  qed
  then have "fst (refreshAccessToken en2 s' rq2) = s'"
    and "outcomeStatus (snd (refreshAccessToken en2 s' rq2)) = 401"
    by (auto simp: outcomeStatus_def statusCode_def)
  with out cleared show ?thesis by simp
qed

text \<open>The client drops the \<open>undefined\<close> key, so logout changes nothing in the store.\<close>

lemma logout_keeps_token_when_undefined_is_omitted:
  "omitsUndefined en \<Longrightarrow> fst (logoutUser en s rq) = s"
  by (simp add: logoutUser_def split: option.splits)

text \<open>
  C2 (the code departs from the claim). Alice holds the refresh token \<open>oldRefresh\<close>.
  Her logout is answered with 200, but its update reaches the store empty: the token is
  still stored on her afterwards, and a refresh that presents it is answered with 200
  and a new pair of tokens.
\<close>

theorem logout_leaves_refresh_token_valid:
  "map refreshToken (users (loggedInStore oldRefresh)) = [Val oldRefresh]
   \<and> outcomeStatus (snd (logoutUser exampleEnv (loggedInStore oldRefresh) (logoutRequest 1))) = 200
   \<and> fst (logoutUser exampleEnv (loggedInStore oldRefresh) (logoutRequest 1))
       = loggedInStore oldRefresh
   \<and> outcomeStatus (snd (refreshAccessToken exampleEnv
        (fst (logoutUser exampleEnv (loggedInStore oldRefresh) (logoutRequest 1)))
        (refreshRequest oldRefresh))) = 200
   \<and> map fst (cookiesSet (projr (snd (refreshAccessToken exampleEnv
        (fst (logoutUser exampleEnv (loggedInStore oldRefresh) (logoutRequest 1)))
        (refreshRequest oldRefresh))))) = [''accessToken'', ''refreshToken'']"
  by (simp add: example_defs run_defs logoutUser_def refreshAccessToken_def
        generateAccessAndRefreshTokens_def generateAccessToken_def generateRefreshToken_def)

section \<open>Confirming an OTP\<close>

text \<open>
  C6 (amended). When the stored forgot-password expiry is in the past and the submitted
  OTP equals the stored one, \<open>verifyForgotPasswordOTP\<close> fails with 400 ``OTP has
  expired.'' and the store is unchanged: the OTP and its expiry stay as they were.
\<close>

theorem expired_reset_otp_fails_uncleared:
  assumes "decodeEmail en (orElse (cookies rq ''forgotPassToken'') (bearer rq)) = Inr e"
    and "findByEmail e (users s) = Some u"
    and "strictEq (forgotPasswordOTP u) (bodyField rq ''forgotPasswordOTP'')"
    and "forgotPasswordOtpExpiry u = Val d" and "d < now en"
  shows "verifyForgotPasswordOTP en s rq = (s, Inl (ApiError 400 ''OTP has expired.''))"
  using assms by (simp add: verifyForgotPasswordOTP_def)

theorem expired_reset_otp_fails_uncleared_witness:
  "verifyForgotPasswordOTP exampleEnv (resetPendingStore 900000)
      (resetConfirmRequest (proofToken ''a@x.com'') (JNum 123456)) =
     (resetPendingStore 900000, Inl (ApiError 400 ''OTP has expired.''))"
  using expired_reset_otp_fails_uncleared
    [of exampleEnv "resetConfirmRequest (proofToken ''a@x.com'') (JNum 123456)" "''a@x.com''"
        "resetPendingStore 900000"
        "alice\<lparr>forgotPasswordOTP := Val 123456, forgotPasswordOtpExpiry := Val 900000\<rparr>" 900000]
  by (simp add: example_defs run_defs)

text \<open>
  C6 as stated fails: alice's OTP 123456 expired at 900000, the clock is at 1000000, the
  matching OTP is submitted with a valid token; the step fails with ``OTP has expired.''
  and alice's OTP and expiry are still stored afterwards.
\<close>

theorem expired_reset_otp_counterexample:
  "map forgotPasswordOtpExpiry (users (resetPendingStore 900000)) = [Val 900000]
   \<and> 900000 < now exampleEnv
   \<and> snd (verifyForgotPasswordOTP exampleEnv (resetPendingStore 900000)
        (resetConfirmRequest (proofToken ''a@x.com'') (JNum 123456)))
       = Inl (ApiError 400 ''OTP has expired.'')
   \<and> map forgotPasswordOTP (users (fst (verifyForgotPasswordOTP exampleEnv
        (resetPendingStore 900000)
        (resetConfirmRequest (proofToken ''a@x.com'') (JNum 123456))))) = [Val 123456]
   \<and> map forgotPasswordOtpExpiry (users (fst (verifyForgotPasswordOTP exampleEnv
        (resetPendingStore 900000)
        (resetConfirmRequest (proofToken ''a@x.com'') (JNum 123456))))) = [Val 900000]"
  by (simp add: verifyForgotPasswordOTP_def example_defs run_defs)

text \<open>
  C10. The stored OTP is a number (or without a value); compared with \<open>!==\<close>, a
  submitted string never equals it. Once the token is accepted and the user is loaded,
  \<open>verifyUpdateEmailOTP\<close> and \<open>verifyForgotPasswordOTP\<close> answer an OTP submitted as a
  string with 400 ``Invalid OTP.'', whatever its digits, and leave the store unchanged.
\<close>

theorem string_otp_is_invalid:
  "(decodeEmail en (orElse (cookies rq ''updateEmailToken'') (updateemailtoken rq)) = Inr e
      \<and> authUser rq = Some i \<and> findById i (users s) = Some u
      \<and> bodyField rq ''updateEmailOTP'' = JStr d
    \<longrightarrow> verifyUpdateEmailOTP en s rq = (s, Inl (ApiError 400 ''Invalid OTP.'')))
   \<and> (decodeEmail en (orElse (cookies rq ''forgotPassToken'') (bearer rq)) = Inr e
      \<and> findByEmail e (users s) = Some u
      \<and> bodyField rq ''forgotPasswordOTP'' = JStr d
    \<longrightarrow> verifyForgotPasswordOTP en s rq = (s, Inl (ApiError 400 ''Invalid OTP.'')))"
  by (simp add: verifyUpdateEmailOTP_def verifyForgotPasswordOTP_def)

theorem string_otp_is_invalid_witness:
  "map updateEmailOTP (users (changePendingStore 2000000)) = [Val 123456]
   \<and> verifyUpdateEmailOTP exampleEnv (changePendingStore 2000000)
      (changeConfirmRequest 1 (proofToken ''b@x.com'') (JStr ''123456'')) =
     (changePendingStore 2000000, Inl (ApiError 400 ''Invalid OTP.''))
   \<and> map forgotPasswordOTP (users (resetPendingStore 2000000)) = [Val 123456]
   \<and> verifyForgotPasswordOTP exampleEnv (resetPendingStore 2000000)
      (resetConfirmRequest (proofToken ''a@x.com'') (JStr ''123456'')) =
     (resetPendingStore 2000000, Inl (ApiError 400 ''Invalid OTP.''))"
  using string_otp_is_invalid
    [of exampleEnv "changeConfirmRequest 1 (proofToken ''b@x.com'') (JStr ''123456'')" "''b@x.com''" 1
        "changePendingStore 2000000"
        "alice\<lparr>updateEmailOTP := Val 123456, updateEmailOTPExpiry := Val 2000000\<rparr>" "''123456''"]
    string_otp_is_invalid
    [of exampleEnv "resetConfirmRequest (proofToken ''a@x.com'') (JStr ''123456'')" "''a@x.com''" 1
        "resetPendingStore 2000000"
        "alice\<lparr>forgotPasswordOTP := Val 123456, forgotPasswordOtpExpiry := Val 2000000\<rparr>" "''123456''"]
  by (simp add: example_defs run_defs)

section \<open>Completing a registration\<close>



lemma someBlank_Thrown: "someBlank fs = Inl err \<Longrightarrow> \<exists>m. err = Thrown m"
  by (induction fs rule: someBlank.induct) (auto split: if_splits)

lemma createUser_Thrown: "createUser en f e p un us = Inl err \<Longrightarrow> \<exists>m. err = Thrown m"
  by (auto simp: createUser_def Let_def split: jsval.splits if_splits)



text \<open>
  The second existence check of \<open>registerUser\<close> repeats the query by email, so the
  conflict on a username is never the answer.
\<close>

lemma username_conflict_is_never_reported:
  assumes "decodeEmail en (orElse (cookies rq ''verifiedEmailToken'') (bearer rq)) = Inr e"
  shows "snd (registerUser en s rq) \<noteq> Inl (ApiError 409 ''User with username already exists'')"
proof (cases "findByEmail e (users s) = None")
  case False
  then show ?thesis using assms
    by (auto simp: registerUser_def Let_def dest: someBlank_Thrown split: sum.split)
next
  case True
  show ?thesis
  proof (cases "bodyField rq ''username''")
    case (JStr un)
    then show ?thesis using assms True
      by (auto simp: registerUser_def Let_def dest: someBlank_Thrown createUser_Thrown
          split: sum.split option.split prod.split)
  qed (use assms True in
        \<open>auto simp: registerUser_def Let_def dest: someBlank_Thrown split: sum.split\<close>)
qed

text \<open>
  C3 (the code departs from the claim). Alice holds the username ``alice''; the token's
  email \<open>b@x.com\<close> is unused. Completing the registration with the username ``alice''
  passes both existence checks and reaches \<open>User.create\<close>, where the unique index
  on username throws: the answer is a 500, not the 409 Conflict, and no user is created.
\<close>

theorem register_taken_username_not_conflict:
  "username alice = ''alice''
   \<and> findByEmail ''b@x.com'' (users aliceStore) = None
   \<and> registerUser exampleEnv aliceStore
        (registerRequest (proofToken ''b@x.com'')
           [(''fullName'', JStr ''Bob B''), (''username'', JStr ''alice''),
            (''password'', JStr ''secret2'')])
       = (aliceStore, Inl (Thrown ''E11000 duplicate key error''))
   \<and> outcomeStatus (Inl (Thrown ''E11000 duplicate key error'')) = 500"
  by (simp add: registerUser_def createUser_def example_defs run_defs string_defs)

section \<open>Proof tokens across workflows\<close>

lemma trim_Nil [simp]: "trim [] = []"
  by (simp add: trim_def)

lemma lowerChar_cases: "lowerChar c = c \<or> lowerChar c \<in> set ''abcdefghijklmnopqrstuvwxyz''"
  by (simp add: lowerChar_def)

lemma lowerChar_not_space: "\<not> isSpace c \<Longrightarrow> \<not> isSpace (lowerChar c)"
  using lowerChar_cases[of c] by (auto simp: isSpace_def)

lemma lowerChar_idem: "lowerChar (lowerChar c) = lowerChar c"
  using lowerChar_cases[of c] by (auto simp: lowerChar_def)

lemma toLowerCase_idem: "toLowerCase (toLowerCase s) = toLowerCase s"
  by (simp add: toLowerCase_def lowerChar_idem)

lemma usernameChar_not_space: "usernameChar c \<Longrightarrow> \<not> isSpace c"
  by (auto simp: usernameChar_def isSpace_def charCode_def)

lemma trim_no_space: "s \<noteq> [] \<Longrightarrow> \<forall>c \<in> set s. \<not> isSpace c \<Longrightarrow> trim s = s"
proof -
  assume ne: "s \<noteq> []" and ns: "\<forall>c \<in> set s. \<not> isSpace c"
  from ne ns have "\<not> isSpace (hd s)" and "\<not> isSpace (last s)" by simp_all
  then have "dropWhile isSpace s = s" and "dropWhile isSpace (rev s) = rev s"
    using ne by (simp_all add: dropWhile_eq_self_iff hd_rev)
  then show ?thesis by (simp add: trim_def)
qed

lemma trim_lower_no_space:
  "s \<noteq> [] \<Longrightarrow> \<forall>c \<in> set s. \<not> isSpace c \<Longrightarrow>
   trim (toLowerCase s) = toLowerCase s \<and> toLowerCase s \<noteq> []"
  using trim_no_space[of "toLowerCase s"] by (auto simp: toLowerCase_def lowerChar_not_space)

lemma uid_less_freshId: "v \<in> set us \<Longrightarrow> uid v < freshId us"
  by (induction us) (auto simp: freshId_def)

lemma findById_append_fresh:
  "uid u = freshId us \<Longrightarrow> findById (freshId us) (us @ [u]) = Some u"
proof -
  assume a: "uid u = freshId us"
  have "find (\<lambda>v. uid v = uid u) (xs @ [u]) = Some u" if "\<forall>v \<in> set xs. uid v \<noteq> uid u" for xs
    using that by (induction xs) auto
  moreover have "\<forall>v \<in> set us. uid v \<noteq> uid u"
    using a uid_less_freshId by fastforce
  ultimately show ?thesis using a by (simp add: findById_def)
qed

lemma createUser_found:
  "createUser en f e p un us = Inr (u, us') \<Longrightarrow> us' = us @ [u] \<and> findById (uid u) us' = Some u"
  by (auto simp: createUser_def Let_def findById_append_fresh split: jsval.splits if_splits)

lemma emailRegistration_success:
  assumes "emailRegistration en s rq = (s1, Inr r1)" and "bodyField rq ''email'' = JStr e"
  shows "e \<noteq> [] \<and> (\<forall>c \<in> set e. \<not> isSpace c) \<and> findByEmail e (users s) = None
         \<and> users s1 = users s \<and> tokens r1 = [(''token'', generateToken en (now en) e)]"
  using assms
  by (auto simp: emailRegistration_def Let_def emailPattern_test_def
      split: if_splits option.splits)

lemma verifyEmail_success:
  assumes "verifyEmail en s rq = (s1, Inr r)"
    and "decodeEmail en (orElse (cookies rq ''emailToken'') (bearer rq)) = Inr e"
  shows "tokens r = [(''token'', generateToken en (now en) e)]"
  using assms by (auto simp: verifyEmail_def Let_def split: option.splits)

lemma registerUser_accepts:
  assumes tok: "decodeEmail en (orElse (cookies rq ''verifiedEmailToken'') (bearer rq)) = Inr e"
    and e: "e \<noteq> []" "\<forall>c \<in> set e. \<not> isSpace c" "findByEmail e (users s) = None"
    and f: "bodyField rq ''fullName'' = JStr f" "trim f \<noteq> []"
    and un: "bodyField rq ''username'' = JStr un" "usernamePattern_test un"
    and p: "bodyField rq ''password'' = JStr p" "trim p \<noteq> []"
    and free: "\<forall>v \<in> set (users s). username v \<noteq> toLowerCase un \<and> email v \<noteq> toLowerCase e"
  shows "outcomeStatus (snd (registerUser en s rq)) = 201
         \<and> map email (users (fst (registerUser en s rq))) = map email (users s) @ [toLowerCase e]"
proof -
  from un have un1: "un \<noteq> []" "\<forall>c \<in> set un. \<not> isSpace c"
    by (auto simp: usernamePattern_test_def usernameChar_not_space)
  then have tu: "trim un = un" by (simp add: trim_no_space)
  from un1 have tlu: "trim (toLowerCase un) = toLowerCase un" "toLowerCase un \<noteq> []"
    using trim_lower_no_space[of un] by simp_all
  from e have tle: "trim (toLowerCase e) = toLowerCase e" "toLowerCase e \<noteq> []"
    using trim_lower_no_space[of e] by simp_all
  from p have p1: "p \<noteq> []" by auto
  have blank: "someBlank [JStr f, JStr un, JStr p] = Inr False"
    using f p tu un1 by simp
  let ?u = "\<lparr>uid = freshId (users s), username = toLowerCase un, email = toLowerCase e,
              fullName = trim f, password = bcryptHash en p, refreshToken = Absent,
              forgotPasswordOTP = Absent, forgotPasswordOtpExpiry = Absent,
              updateEmailOTP = Absent, updateEmailOTPExpiry = Absent\<rparr>"
  have cr: "createUser en (JStr f) e (JStr p) (toLowerCase un) (users s) = Inr (?u, users s @ [?u])"
    using f p1 tlu tle free by (simp add: createUser_def toLowerCase_idem Let_def)
  have fnd: "findById (uid ?u) (users s @ [?u]) = Some ?u"
    using createUser_found[OF cr] by simp
  have "registerUser en s rq =
          (s\<lparr>users := users s @ [?u]\<rparr>,
           Inr \<lparr>status = 201, cookiesSet = [], cookiesCleared = [''verifiedEmailToken''],
                tokens = [], jsonUser = Some (redact ?u),
                message = ''User registered successfully!''\<rparr>)"
    using tok f un p blank e(3) cr fnd
    by (simp add: registerUser_def jsString_def)
  then show ?thesis by (simp add: outcomeStatus_def)
qed

lemma refresh_needs_stored_token:
  assumes "orElse (bodyRefreshToken rq) (cookies rq ''refreshToken'') = Some t"
    and "\<forall>u \<in> set (users s). refreshToken u \<noteq> Val t"
  shows "fst (refreshAccessToken en s rq) = s
         \<and> outcomeStatus (snd (refreshAccessToken en s rq)) = 401"
  using assms
  by (auto simp: refreshAccessToken_def outcomeStatus_def statusCode_def dest: findById_uid
      split: sum.splits option.splits)

text \<open>
  The steps issue \<open>generateToken(email)\<close> and check \<open>verifyToken(token).data\<close>, with
  nothing that tells one step's token from another's. Whatever the codec: the token a
  successful \<open>emailRegistration\<close> of \<open>e\<close> returns is the token \<open>verifyEmail\<close> returns
  for \<open>e\<close> at that clock; and if the codec accepts the token it has just issued,
  \<open>registerUser\<close> takes it as its proof and, given a non-blank fullName and password, a
  username of the allowed pattern, and username and email not taken, creates the user
  for \<open>e\<close> and answers 201.
\<close>

lemma registration_token_completes_registration:
  assumes reg: "emailRegistration en s rq = (s1, Inr r1)"
    and em: "bodyField rq ''email'' = JStr e"
  shows "tokens r1 = [(''token'', generateToken en (now en) e)]
       \<and> (\<forall>s2 rq2 s3 r2.
             decodeEmail en (orElse (cookies rq2 ''emailToken'') (bearer rq2)) = Inr e
             \<and> verifyEmail en s2 rq2 = (s3, Inr r2) \<longrightarrow> tokens r2 = tokens r1)
       \<and> (verifyToken en (now en) (generateToken en (now en) e) = Inr (Some e) \<longrightarrow>
            (\<forall>rq2 f un p.
               cookies rq2 ''verifiedEmailToken'' = Some (generateToken en (now en) e)
               \<and> bodyField rq2 ''fullName'' = JStr f \<and> trim f \<noteq> []
               \<and> bodyField rq2 ''username'' = JStr un \<and> usernamePattern_test un
               \<and> bodyField rq2 ''password'' = JStr p \<and> trim p \<noteq> []
               \<and> (\<forall>v \<in> set (users s1).
                     username v \<noteq> toLowerCase un \<and> email v \<noteq> toLowerCase e)
             \<longrightarrow> outcomeStatus (snd (registerUser en s1 rq2)) = 201
                 \<and> map email (users (fst (registerUser en s1 rq2)))
                     = map email (users s1) @ [toLowerCase e]))"
proof -
  note ok = emailRegistration_success[OF reg em]
  have a: "tokens r1 = [(''token'', generateToken en (now en) e)]" using ok by simp
  have b: "\<forall>s2 rq2 s3 r2.
             decodeEmail en (orElse (cookies rq2 ''emailToken'') (bearer rq2)) = Inr e
             \<and> verifyEmail en s2 rq2 = (s3, Inr r2) \<longrightarrow> tokens r2 = tokens r1"
    using a by (auto dest: verifyEmail_success)
  have c: "outcomeStatus (snd (registerUser en s1 rq2)) = 201
           \<and> map email (users (fst (registerUser en s1 rq2)))
               = map email (users s1) @ [toLowerCase e]"
    if rt: "verifyToken en (now en) (generateToken en (now en) e) = Inr (Some e)"
      and h: "cookies rq2 ''verifiedEmailToken'' = Some (generateToken en (now en) e)"
        "bodyField rq2 ''fullName'' = JStr f" "trim f \<noteq> []"
        "bodyField rq2 ''username'' = JStr un" "usernamePattern_test un"
        "bodyField rq2 ''password'' = JStr p" "trim p \<noteq> []"
        "\<forall>v \<in> set (users s1). username v \<noteq> toLowerCase un \<and> email v \<noteq> toLowerCase e"
    for rq2 f un p
  proof -
    have "decodeEmail en (orElse (cookies rq2 ''verifiedEmailToken'') (bearer rq2)) = Inr e"
      using rt h(1) ok by (simp add: decodeEmail_def orElse_def)
    then show ?thesis
      using ok h by (intro registerUser_accepts[where f = f and un = un and p = p]) simp_all
  qed
  from a b c show ?thesis by blast
qed

text \<open>
  C1 (the code departs from the claim). Two tokens issued before any OTP is confirmed
  are accepted by the step that comes after the confirmation.
  \<^item> \<open>emailRegistration\<close> of \<open>b@x.com\<close> returns a token; \<open>registerUser\<close>, given that
    token as \<open>verifiedEmailToken\<close>, creates the user and answers 201 while the
    registration's OTP is still pending.
  \<^item> \<open>sendForgotPasswordOTP\<close> for alice returns a token; \<open>forgotPassword\<close>, given that
    token as \<open>verifiedToken\<close>, rewrites alice's password and answers 200 while her
    OTP is still stored, unconfirmed.
\<close>

theorem proof_token_skips_otp_confirmation:
  "emailRegistration exampleEnv emptyStore (emailRequest ''b@x.com'') =
     (pendingStore ''b@x.com'',
      Inr \<lparr>status = 200, cookiesSet = [(''emailToken'', proofToken ''b@x.com'')],
           cookiesCleared = [], tokens = [(''token'', proofToken ''b@x.com'')], jsonUser = None,
           message = ''OTP sent successfuly. Please verify your email.''\<rparr>)
   \<and> outcomeStatus (snd (registerUser exampleEnv (pendingStore ''b@x.com'')
        (registerRequest (proofToken ''b@x.com'') bobFields))) = 201
   \<and> map email (users (fst (registerUser exampleEnv (pendingStore ''b@x.com'')
        (registerRequest (proofToken ''b@x.com'') bobFields)))) = [''b@x.com'']
   \<and> registrations (fst (registerUser exampleEnv (pendingStore ''b@x.com'')
        (registerRequest (proofToken ''b@x.com'') bobFields)))
       = [\<lparr>regEmail = ''b@x.com'', verificationOTP = Val 123456\<rparr>]
   \<and> sendForgotPasswordOTP exampleEnv aliceStore (resetRequest ''alice'') =
     (resetPendingStore 1900000,
      Inr \<lparr>status = 200, cookiesSet = [(''forgotPassToken'', proofToken ''a@x.com'')],
           cookiesCleared = [], tokens = [(''token'', proofToken ''a@x.com'')], jsonUser = None,
           message = ''Forgot password OTP sent successfully.''\<rparr>)
   \<and> outcomeStatus (snd (forgotPassword exampleEnv (resetPendingStore 1900000)
        (newPasswordRequest (proofToken ''a@x.com'') ''intruder1''))) = 200
   \<and> map password (users (fst (forgotPassword exampleEnv (resetPendingStore 1900000)
        (newPasswordRequest (proofToken ''a@x.com'') ''intruder1'')))) = [''$2b$10$intruder1'']
   \<and> map forgotPasswordOTP (users (fst (forgotPassword exampleEnv (resetPendingStore 1900000)
        (newPasswordRequest (proofToken ''a@x.com'') ''intruder1'')))) = [Val 123456]"
  by (simp add: emailRegistration_def registerUser_def createUser_def freshId_def redact_def
        sendForgotPasswordOTP_def forgotPassword_def example_defs run_defs string_defs)

section \<open>What a failed step leaves behind\<close>














section \<open>Replaying a consumed OTP\<close>

lemma deleteFirst_distinct:
  "distinct (map f rs) \<Longrightarrow> \<forall>r \<in> set (deleteFirst (\<lambda>r. f r = e) rs). f r \<noteq> e"
  by (induction rs) (auto simp: image_iff)

lemma verifyEmail_replay:
  assumes inv: "oneRegistrationPerEmail s" and ok: "verifyEmail en s rq = (s1, Inr r)"
  shows "verifyEmail en s1 rq = (s1, Inl (ApiError 400 ''Invalid or expired OTP.''))"
proof -
  from ok obtain e where
    e: "decodeEmail en (orElse (cookies rq ''emailToken'') (bearer rq)) = Inr e"
    and s1: "s1 = s\<lparr>registrations := deleteFirst (\<lambda>r. regEmail r = e) (registrations s)\<rparr>"
    by (auto simp: verifyEmail_def Let_def split: sum.splits option.splits)
  have "\<forall>x \<in> set (registrations s1). regEmail x \<noteq> e"
    using inv deleteFirst_distinct[of regEmail "registrations s" e]
    by (simp add: s1 oneRegistrationPerEmail_def)
  then have "find (\<lambda>x. regEmail x = e \<and> otpQueryMatches en (bodyField rq ''verificationOTP'')
                 (verificationOTP x)) (registrations s1) = None"
    by (auto simp: find_None_iff)
  with e show ?thesis by (simp add: verifyEmail_def)
qed

lemma verifyUpdateEmailOTP_replay:
  assumes inv: "pairedOtps s" and pos: "0 < now en"
    and ok: "verifyUpdateEmailOTP en s rq = (s1, Inr r)"
  shows "verifyUpdateEmailOTP en s1 rq = (s1, Inl (ApiError 400 ''Invalid OTP.''))"
proof -
  let ?otp = "bodyField rq ''updateEmailOTP''"
  from ok obtain e i u where
    e: "decodeEmail en (orElse (cookies rq ''updateEmailToken'') (updateemailtoken rq)) = Inr e"
    and i: "authUser rq = Some i" and u: "findById i (users s) = Some u"
    and eq: "strictEq (updateEmailOTP u) ?otp"
    and fresh: "\<not> dateBefore (updateEmailOTPExpiry u) (now en)"
    and s1: "s1 = s\<lparr>users := saveUser (u\<lparr>email := trim (toLowerCase e),
                 updateEmailOTP := Null, updateEmailOTPExpiry := Null\<rparr>) (users s)\<rparr>"
    by (auto simp: verifyUpdateEmailOTP_def Let_def split: sum.splits option.splits if_splits)
  from u have ui: "uid u = i" and mem: "u \<in> set (users s)" by (auto dest: findById_uid)
  from inv mem have paired: "otpPaired (updateEmailOTP u) (updateEmailOTPExpiry u)"
    by (auto simp: pairedOtps_def)
  have "?otp \<noteq> JNull"
  proof
    assume n: "?otp = JNull"
    with eq have "updateEmailOTP u = Null" by (cases "updateEmailOTP u") auto
    with paired have "updateEmailOTPExpiry u = Null" by (simp add: otpPaired_def)
    with fresh pos show False by simp
  qed
  then have ne: "\<not> strictEq Null ?otp" by (simp add: strictEq_Null)
  have "findById i (users s1) = Some (u\<lparr>email := trim (toLowerCase e),
                 updateEmailOTP := Null, updateEmailOTPExpiry := Null\<rparr>)"
    using u ui by (simp add: s1 findById_saveUser)
  with e i ne show ?thesis by (simp add: verifyUpdateEmailOTP_def)
qed

lemma verifyForgotPasswordOTP_replay:
  assumes inv: "pairedOtps s" and pos: "0 < now en"
    and ok: "verifyForgotPasswordOTP en s rq = (s1, Inr r)"
  shows "verifyForgotPasswordOTP en s1 rq = (s1, Inl (ApiError 400 ''Invalid OTP.''))"
proof -
  let ?otp = "bodyField rq ''forgotPasswordOTP''"
  from ok obtain e u where
    e: "decodeEmail en (orElse (cookies rq ''forgotPassToken'') (bearer rq)) = Inr e"
    and u: "findByEmail e (users s) = Some u"
    and eq: "strictEq (forgotPasswordOTP u) ?otp"
    and fresh: "\<not> dateBefore (forgotPasswordOtpExpiry u) (now en)"
    and s1: "s1 = s\<lparr>users := saveUser (u\<lparr>forgotPasswordOTP := Null,
                 forgotPasswordOtpExpiry := Null\<rparr>) (users s)\<rparr>"
    by (auto simp: verifyForgotPasswordOTP_def Let_def split: sum.splits option.splits if_splits)
  from u have mem: "u \<in> set (users s)" by (auto dest: findByEmail_email)
  from inv mem have paired: "otpPaired (forgotPasswordOTP u) (forgotPasswordOtpExpiry u)"
    by (auto simp: pairedOtps_def)
  have "?otp \<noteq> JNull"
  proof
    assume n: "?otp = JNull"
    with eq have "forgotPasswordOTP u = Null" by (cases "forgotPasswordOTP u") auto
    with paired have "forgotPasswordOtpExpiry u = Null" by (simp add: otpPaired_def)
    with fresh pos show False by simp
  qed
  then have ne: "\<not> strictEq Null ?otp" by (simp add: strictEq_Null)
  have "findByEmail e (users s1) = Some (u\<lparr>forgotPasswordOTP := Null,
                 forgotPasswordOtpExpiry := Null\<rparr>)"
    using u by (simp add: s1 findByEmail_saveUser)
  with e ne show ?thesis by (simp add: verifyForgotPasswordOTP_def)
qed

text \<open>
  C8. In a store that keeps the data model's invariants (at most one pending
  registration per email; an OTP and its expiry set and cleared together), and with the
  clock after the epoch: when \<open>verifyEmail\<close>, \<open>verifyUpdateEmailOTP\<close> or
  \<open>verifyForgotPasswordOTP\<close> succeeds, the same request presented again to the store it
  left fails with 400 ``Invalid or expired OTP.'', respectively ``Invalid OTP.'', and
  changes nothing.
\<close>

theorem consumed_otp_is_not_accepted_again:
  "(oneRegistrationPerEmail s \<and> verifyEmail en s rq = (s1, Inr r) \<longrightarrow>
      verifyEmail en s1 rq = (s1, Inl (ApiError 400 ''Invalid or expired OTP.'')))
   \<and> (pairedOtps s \<and> 0 < now en \<and> verifyUpdateEmailOTP en s rq = (s1, Inr r) \<longrightarrow>
      verifyUpdateEmailOTP en s1 rq = (s1, Inl (ApiError 400 ''Invalid OTP.'')))
   \<and> (pairedOtps s \<and> 0 < now en \<and> verifyForgotPasswordOTP en s rq = (s1, Inr r) \<longrightarrow>
      verifyForgotPasswordOTP en s1 rq = (s1, Inl (ApiError 400 ''Invalid OTP.'')))"
  using verifyEmail_replay[of s en rq s1 r] verifyUpdateEmailOTP_replay[of s en rq s1 r]
    verifyForgotPasswordOTP_replay[of s en rq s1 r]
  by blast

theorem consumed_otp_is_not_accepted_again_witness:
  "oneRegistrationPerEmail (pendingStore ''b@x.com'')
   \<and> fst (verifyEmail exampleEnv (pendingStore ''b@x.com'')
        (emailConfirmRequest (proofToken ''b@x.com'') (JNum 123456))) = emptyStore
   \<and> outcomeStatus (snd (verifyEmail exampleEnv (pendingStore ''b@x.com'')
        (emailConfirmRequest (proofToken ''b@x.com'') (JNum 123456)))) = 200
   \<and> verifyEmail exampleEnv emptyStore (emailConfirmRequest (proofToken ''b@x.com'') (JNum 123456))
       = (emptyStore, Inl (ApiError 400 ''Invalid or expired OTP.''))
   \<and> pairedOtps (changePendingStore 2000000)
   \<and> fst (verifyUpdateEmailOTP exampleEnv (changePendingStore 2000000)
        (changeConfirmRequest 1 (proofToken ''b@x.com'') (JNum 123456))) = aliceAt ''b@x.com''
   \<and> outcomeStatus (snd (verifyUpdateEmailOTP exampleEnv (changePendingStore 2000000)
        (changeConfirmRequest 1 (proofToken ''b@x.com'') (JNum 123456)))) = 200
   \<and> verifyUpdateEmailOTP exampleEnv (aliceAt ''b@x.com'')
        (changeConfirmRequest 1 (proofToken ''b@x.com'') (JNum 123456))
       = (aliceAt ''b@x.com'', Inl (ApiError 400 ''Invalid OTP.''))
   \<and> pairedOtps (resetPendingStore 2000000)
   \<and> fst (verifyForgotPasswordOTP exampleEnv (resetPendingStore 2000000)
        (resetConfirmRequest (proofToken ''a@x.com'') (JNum 123456))) = resetDoneStore
   \<and> outcomeStatus (snd (verifyForgotPasswordOTP exampleEnv (resetPendingStore 2000000)
        (resetConfirmRequest (proofToken ''a@x.com'') (JNum 123456)))) = 200
   \<and> verifyForgotPasswordOTP exampleEnv resetDoneStore
        (resetConfirmRequest (proofToken ''a@x.com'') (JNum 123456))
       = (resetDoneStore, Inl (ApiError 400 ''Invalid OTP.''))"
  using consumed_otp_is_not_accepted_again
    [of "pendingStore ''b@x.com''" exampleEnv
        "emailConfirmRequest (proofToken ''b@x.com'') (JNum 123456)" emptyStore
        "projr (snd (verifyEmail exampleEnv (pendingStore ''b@x.com'')
           (emailConfirmRequest (proofToken ''b@x.com'') (JNum 123456))))"]
   consumed_otp_is_not_accepted_again
    [of "changePendingStore 2000000" exampleEnv
        "changeConfirmRequest 1 (proofToken ''b@x.com'') (JNum 123456)" "aliceAt ''b@x.com''"
        "projr (snd (verifyUpdateEmailOTP exampleEnv (changePendingStore 2000000)
           (changeConfirmRequest 1 (proofToken ''b@x.com'') (JNum 123456))))"]
   consumed_otp_is_not_accepted_again
    [of "resetPendingStore 2000000" exampleEnv
        "resetConfirmRequest (proofToken ''a@x.com'') (JNum 123456)" resetDoneStore
        "projr (snd (verifyForgotPasswordOTP exampleEnv (resetPendingStore 2000000)
           (resetConfirmRequest (proofToken ''a@x.com'') (JNum 123456))))"]
  by (simp add: verifyEmail_def verifyUpdateEmailOTP_def verifyForgotPasswordOTP_def
        example_defs run_defs string_defs oneRegistrationPerEmail_def pairedOtps_def otpPaired_def)

end
